theory Spec2Isabelle
  imports Main
begin

section \<open>The hyperglass command line interface (hyperglass/cli/main.py)\<close>

text \<open>
  Every command of the module is a Python function that calls external collaborators,
  prints, and either returns or raises. A command is modelled as a function from its
  arguments and its collaborators to the list of observable events it produces, in
  order, and the way it ends.
\<close>

subsection \<open>Exceptions, results and events\<close>

text \<open>
  What \<^verbatim>\<open>SystemExit\<close> was raised with: nothing, an integer status, or another
  object, kept as the text \<^verbatim>\<open>str\<close> gives for it.
\<close>

datatype exit_arg = NoArg | IntArg int | StrArg string

text \<open>
  The exceptions the module deals with. \<^verbatim>\<open>KeyboardInterrupt\<close> carries its message
  (empty when raised bare). \<^verbatim>\<open>typer.Exit\<close> is a \<^verbatim>\<open>RuntimeError\<close> carrying the exit
  code, so neither \<^verbatim>\<open>except (KeyboardInterrupt, SystemExit)\<close> nor
  \<^verbatim>\<open>except AttributeError\<close> catches it. \<^verbatim>\<open>ReError\<close> is \<^verbatim>\<open>re.error\<close>.
\<close>

datatype exc =
    KeyboardInterrupt string
  | SystemExit exit_arg
  | TyperExit int
  | AttributeError
  | ReError
  | OtherError string

datatype 'a result = Ret 'a | Raise exc

datatype outcome = Returned | Raised exc

text \<open>A configured device, directive or plugin: the two fields the module reads.\<close>

record entity =
  ent_id :: string
  ent_name :: string

text \<open>The configuration parameter object graph: a printable value and its attributes.\<close>

datatype pyobj = PyObj (shown: string) (attrs: "(string \<times> pyobj) list")

text \<open>\<^verbatim>\<open>Inspect(obj, title=...)\<close>: the inspected object and the panel title.\<close>

datatype 'a panel = Inspect (subject: 'a) (title: string)

text \<open>
  A piece of an f-string: literal text, or \<^verbatim>\<open>{x!r}\<close>, the \<^verbatim>\<open>repr\<close> of a string,
  kept symbolic.
\<close>

datatype frag = Text string | Repr string

datatype event =
    CallBuildUi nat
  | CallStartServer "int option"
  | EchoWarning string
  | EchoError "frag list"
  | PrintEntity "entity panel"
  | PrintEntityColumns "entity panel list"
  | PrintPluginColumns "entity list"
  | PrintValue "pyobj panel"

text \<open>
  The process exit status typer gives a command: 0 when the function returns, the
  code of a \<^verbatim>\<open>typer.Exit\<close> it raises. Another exception leaving the command is an
  unhandled fault and has no status decided by the command.
\<close>

fun exit_code :: "outcome \<Rightarrow> int option" where
  "exit_code Returned = Some 0"
| "exit_code (Raised (TyperExit n)) = Some n"
| "exit_code (Raised _) = None"

subsection \<open>Python's \<^verbatim>\<open>str\<close> on the caught exceptions\<close>

definition digit_char :: "nat \<Rightarrow> char" where
  "digit_char d = char_of (48 + d)"

fun str_nat :: "nat \<Rightarrow> string" where
  "str_nat n = (if n < 10 then [digit_char n] else str_nat (n div 10) @ [digit_char (n mod 10)])"

declare str_nat.simps [simp del]

definition str_int :: "int \<Rightarrow> string" where
  "str_int i = (if i < 0 then CHR ''-'' # str_nat (nat (- i)) else str_nat (nat i))"

fun str_exit_arg :: "exit_arg \<Rightarrow> string" where
  "str_exit_arg NoArg = []"
| "str_exit_arg (IntArg i) = str_int i"
| "str_exit_arg (StrArg s) = s"

subsection \<open>The \<^verbatim>\<open>start\<close> command (\<^verbatim>\<open>_start\<close>)\<close>

text \<open>
  \<^verbatim>\<open>build_ui\<close> (from \<^verbatim>\<open>.util\<close>) and \<^verbatim>\<open>start_server\<close> (\<^verbatim>\<open>hyperglass.main.run\<close>) are
  parameters: each either returns a value or raises. The value \<^verbatim>\<open>start_server\<close>
  returns is discarded by the command.
\<close>

definition call_start_server ::
  "(int option \<Rightarrow> 'r result) \<Rightarrow> int option \<Rightarrow> event list \<times> outcome" where
  "call_start_server start_server workers =
     (case start_server workers of
        Ret _ \<Rightarrow> ([CallStartServer workers], Returned)
      | Raise e \<Rightarrow> ([CallStartServer workers], Raised e))"

text \<open>The body of the \<^verbatim>\<open>try\<close> block.\<close>

definition start_try ::
  "(nat \<Rightarrow> bool result) \<Rightarrow> (int option \<Rightarrow> 'r result) \<Rightarrow> bool \<Rightarrow> int option
     \<Rightarrow> event list \<times> outcome" where
  "start_try build_ui start_server build workers =
     (if build then
        (case build_ui 180 of
           Raise e \<Rightarrow> ([CallBuildUi 180], Raised e)
         | Ret build_complete \<Rightarrow>
             if build_complete then
               (case call_start_server start_server workers of
                  (evs, out) \<Rightarrow> (CallBuildUi 180 # evs, out))
             else ([CallBuildUi 180], Returned))
      else call_start_server start_server workers)"

definition stop_notice :: "frag list" where
  "stop_notice = [Text ''Stopping hyperglass due to keyboard interrupt.'']"

text \<open>The body of the \<^verbatim>\<open>except (KeyboardInterrupt, SystemExit) as err\<close> clause.\<close>

definition start_except :: "string \<Rightarrow> event list \<times> outcome" where
  "start_except error_message =
     ((if length error_message > 1 then [EchoWarning error_message] else [])
        @ [EchoError stop_notice],
      Raised (TyperExit 0))"

definition start_cmd ::
  "(nat \<Rightarrow> bool result) \<Rightarrow> (int option \<Rightarrow> 'r result) \<Rightarrow> bool \<Rightarrow> int option
     \<Rightarrow> event list \<times> outcome" where
  "start_cmd build_ui start_server build workers =
     (case start_try build_ui start_server build workers of
        (evs, Raised (KeyboardInterrupt m)) \<Rightarrow>
          (case start_except m of (evs', out) \<Rightarrow> (evs @ evs', out))
      | (evs, Raised (SystemExit a)) \<Rightarrow>
          (case start_except (str_exit_arg a) of (evs', out) \<Rightarrow> (evs @ evs', out))
      | (evs, out) \<Rightarrow> (evs, out))"

text \<open>An interrupt, as the \<^verbatim>\<open>except\<close> clause of \<^verbatim>\<open>_start\<close> sees it.\<close>

fun is_interrupt :: "exc \<Rightarrow> bool" where
  "is_interrupt (KeyboardInterrupt _) = True"
| "is_interrupt (SystemExit _) = True"
| "is_interrupt _ = False"

fun is_start_server :: "event \<Rightarrow> bool" where
  "is_start_server (CallStartServer _) = True"
| "is_start_server _ = False"

text \<open>Stand-ins for the two collaborators, used to run the command on concrete inputs.\<close>

definition build_succeeds :: "nat \<Rightarrow> bool result" where
  "build_succeeds timeout = Ret True"

definition build_fails :: "nat \<Rightarrow> bool result" where
  "build_fails timeout = Ret False"

definition build_interrupted :: "nat \<Rightarrow> bool result" where
  "build_interrupted timeout = Raise (KeyboardInterrupt [])"

definition server_returns :: "int option \<Rightarrow> int result" where
  "server_returns workers = Ret 3"

definition server_exits :: "int option \<Rightarrow> int result" where
  "server_exits workers = Raise (SystemExit (IntArg 3))"

definition server_interrupted :: "int option \<Rightarrow> int result" where
  "server_interrupted workers = Raise (KeyboardInterrupt ''operator stop'')"

subsection \<open>The regular expression library\<close>

text \<open>
  Python's \<^verbatim>\<open>re\<close> module is a parameter of the search commands.
  \<^verbatim>\<open>re_compile\<close> is \<^verbatim>\<open>re.compile(search, flags)\<close>, with \<open>None\<close> for a raised
  \<^verbatim>\<open>re.error\<close>; \<^verbatim>\<open>pattern_match p s\<close> says whether \<^verbatim>\<open>p.match(s)\<close>, the match
  anchored at the start of \<^verbatim>\<open>s\<close>, is not \<^verbatim>\<open>None\<close>.
\<close>

datatype re_flag = IGNORECASE

record 'p re_lib =
  re_compile :: "string \<Rightarrow> re_flag list \<Rightarrow> 'p option"
  pattern_match :: "'p \<Rightarrow> string \<Rightarrow> bool"

text \<open>
  An instance of the library on a fragment of the pattern language, used to run the
  commands on concrete inputs. A pattern made only of ASCII letters, digits, spaces,
  hyphens and underscores is literal text: it matches a string that starts with it,
  letters compared without case under \<^verbatim>\<open>IGNORECASE\<close>. Every other pattern is
  outside the fragment and is refused; of those only \<^verbatim>\<open>(\<close> is used below, which
  Python refuses as well (an unterminated subpattern).
\<close>

definition plain_char :: "char \<Rightarrow> bool" where
  "plain_char c =
     (let n = (of_char c :: nat) in
        (65 \<le> n \<and> n \<le> 90) \<or> (97 \<le> n \<and> n \<le> 122) \<or> (48 \<le> n \<and> n \<le> 57)
          \<or> n = 32 \<or> n = 45 \<or> n = 95)"

definition lower_char :: "char \<Rightarrow> char" where
  "lower_char c =
     (let n = (of_char c :: nat) in if 65 \<le> n \<and> n \<le> 90 then char_of (n + 32) else c)"

fun starts_with :: "string \<Rightarrow> string \<Rightarrow> bool" where
  "starts_with [] s = True"
| "starts_with (p # ps) [] = False"
| "starts_with (p # ps) (c # cs) = (p = c \<and> starts_with ps cs)"

datatype literal_pattern = Literal string bool

definition literal_compile :: "string \<Rightarrow> re_flag list \<Rightarrow> literal_pattern option" where
  "literal_compile s flags =
     (if list_all plain_char s then Some (Literal s (IGNORECASE \<in> set flags)) else None)"

fun literal_match :: "literal_pattern \<Rightarrow> string \<Rightarrow> bool" where
  "literal_match (Literal p ignorecase) s =
     (if ignorecase then starts_with (map lower_char p) (map lower_char s)
      else starts_with p s)"

definition literal_re :: "literal_pattern re_lib" where
  "literal_re = \<lparr> re_compile = literal_compile, pattern_match = literal_match \<rparr>"

subsection \<open>The \<^verbatim>\<open>devices\<close> and \<^verbatim>\<open>directives\<close> commands\<close>

text \<open>
  The collection (\<^verbatim>\<open>use_state("devices")\<close>) is a parameter. The \<^verbatim>\<open>for\<close> loop
  either prints the first entity whose id or name the pattern matches and raises
  \<^verbatim>\<open>typer.Exit(0)\<close>, or runs to the end of the collection (\<open>None\<close>).
\<close>

fun devices_loop ::
  "(string \<Rightarrow> bool) \<Rightarrow> entity list \<Rightarrow> (event list \<times> outcome) option" where
  "devices_loop matches [] = None"
| "devices_loop matches (device # rest) =
     (if matches (ent_id device) \<or> matches (ent_name device)
      then Some ([PrintEntity (Inspect device (ent_name device))], Raised (TyperExit 0))
      else devices_loop matches rest)"

definition devices_panels :: "entity list \<Rightarrow> event list \<times> outcome" where
  "devices_panels devices =
     ([PrintEntityColumns (map (\<lambda>device. Inspect device (ent_name device)) devices)],
      Returned)"

definition devices_cmd ::
  "'p re_lib \<Rightarrow> entity list \<Rightarrow> string option \<Rightarrow> event list \<times> outcome" where
  "devices_cmd re devices search =
     (case search of
        None \<Rightarrow> devices_panels devices
      | Some s \<Rightarrow>
          (case re_compile re s [IGNORECASE] of
             None \<Rightarrow> ([], Raised ReError)
           | Some pattern \<Rightarrow>
               (case devices_loop (pattern_match re pattern) devices of
                  Some exit \<Rightarrow> exit
                | None \<Rightarrow> devices_panels devices)))"

fun directives_loop ::
  "(string \<Rightarrow> bool) \<Rightarrow> entity list \<Rightarrow> (event list \<times> outcome) option" where
  "directives_loop matches [] = None"
| "directives_loop matches (directive # rest) =
     (if matches (ent_id directive) \<or> matches (ent_name directive)
      then Some ([PrintEntity (Inspect directive (ent_name directive))], Raised (TyperExit 0))
      else directives_loop matches rest)"

definition directives_panels :: "entity list \<Rightarrow> event list \<times> outcome" where
  "directives_panels directives =
     ([PrintEntityColumns
         (map (\<lambda>directive. Inspect directive (ent_name directive)) directives)],
      Returned)"

definition directives_cmd ::
  "'p re_lib \<Rightarrow> entity list \<Rightarrow> string option \<Rightarrow> event list \<times> outcome" where
  "directives_cmd re directives search =
     (case search of
        None \<Rightarrow> directives_panels directives
      | Some s \<Rightarrow>
          (case re_compile re s [IGNORECASE] of
             None \<Rightarrow> ([], Raised ReError)
           | Some pattern \<Rightarrow>
               (case directives_loop (pattern_match re pattern) directives of
                  Some exit \<Rightarrow> exit
                | None \<Rightarrow> directives_panels directives)))"

text \<open>Whether the pattern matches the id field or the name field of an entity.\<close>

definition id_or_name_matches :: "'p re_lib \<Rightarrow> 'p \<Rightarrow> entity \<Rightarrow> bool" where
  "id_or_name_matches re pattern e =
     (pattern_match re pattern (ent_id e) \<or> pattern_match re pattern (ent_name e))"

subsection \<open>The \<^verbatim>\<open>plugins\<close> command\<close>

text \<open>\<^verbatim>\<open>state.plugins(_type)\<close> is a parameter: the plugins of a type, in order.\<close>

definition plugins_cmd ::
  "'p re_lib \<Rightarrow> (string \<Rightarrow> entity list) \<Rightarrow> string option \<Rightarrow> bool \<Rightarrow> bool
     \<Rightarrow> event list \<times> outcome" where
  "plugins_cmd re state_plugins search show_input show_output =
     (let to_fetch = (if show_input then [''input'']
                      else if show_output then [''output'']
                      else [''input'', ''output'']);
          all_plugins = concat (map state_plugins to_fetch)
      in case search of
           None \<Rightarrow> ([PrintPluginColumns all_plugins], Returned)
         | Some s \<Rightarrow>
             (case re_compile re s [IGNORECASE] of
                None \<Rightarrow> ([], Raised ReError)
              | Some pattern \<Rightarrow>
                  (let matching =
                         filter (\<lambda>plugin. pattern_match re pattern (ent_name plugin)) all_plugins
                   in if length matching = 0
                      then ([EchoError [Text ''No plugins matching '', Repr s]],
                            Raised (TyperExit 1))
                      else ([PrintPluginColumns matching], Raised (TyperExit 0)))))"

subsection \<open>The \<^verbatim>\<open>params\<close> command\<close>

text \<open>\<^verbatim>\<open>str.split('.')\<close>.\<close>

fun split_dots :: "string \<Rightarrow> string list" where
  "split_dots [] = [[]]"
| "split_dots (c # cs) =
     (if c = CHR ''.'' then [] # split_dots cs
      else (case split_dots cs of
              [] \<Rightarrow> [[c]]
            | w # ws \<Rightarrow> (c # w) # ws))"

text \<open>\<^verbatim>\<open>getattr(obj, name)\<close>: the attribute, or \<^verbatim>\<open>AttributeError\<close>.\<close>

definition getattr :: "pyobj \<Rightarrow> string \<Rightarrow> pyobj result" where
  "getattr obj name =
     (case map_of (attrs obj) name of
        None \<Rightarrow> Raise AttributeError
      | Some v \<Rightarrow> Ret v)"

text \<open>
  \<^verbatim>\<open>operator.attrgetter(path)(obj)\<close>: the names are the path split at the dots, and
  each is looked up on the object the one before gave.
\<close>

fun attrgetter_names :: "string list \<Rightarrow> pyobj \<Rightarrow> pyobj result" where
  "attrgetter_names [] obj = Ret obj"
| "attrgetter_names (name # names) obj =
     (case getattr obj name of
        Raise e \<Rightarrow> Raise e
      | Ret v \<Rightarrow> attrgetter_names names v)"

definition attrgetter :: "string \<Rightarrow> pyobj \<Rightarrow> pyobj result" where
  "attrgetter path obj = attrgetter_names (split_dots path) obj"

definition params_cmd :: "pyobj \<Rightarrow> string option \<Rightarrow> event list \<times> outcome" where
  "params_cmd params path =
     (case path of
        None \<Rightarrow>
          ([PrintValue (Inspect params ''hyperglass Configuration Parameters'')], Returned)
      | Some p \<Rightarrow>
          (case attrgetter p params of
             Ret v \<Rightarrow> ([PrintValue (Inspect v (''params.'' @ p))], Raised (TyperExit 0))
           | Raise AttributeError \<Rightarrow>
               ([EchoError [Repr (''params.'' @ p), Text '' does not exist'']],
                Raised (TyperExit 1))
           | Raise e \<Rightarrow> ([], Raised e)))"

text \<open>
  A path resolves on an object when every segment, in turn, names an attribute of the
  object reached so far.
\<close>

fun resolves :: "pyobj \<Rightarrow> string list \<Rightarrow> bool" where
  "resolves obj [] = True"
| "resolves obj (seg # segs) =
     (case map_of (attrs obj) seg of
        None \<Rightarrow> False
      | Some child \<Rightarrow> resolves child segs)"

text \<open>No object of the graph has an attribute with the empty name.\<close>

fun named_attrs :: "pyobj \<Rightarrow> bool" where
  "named_attrs (PyObj v as) = list_all (\<lambda>(name, child). name \<noteq> [] \<and> named_attrs child) as"

fun is_echo_error :: "event \<Rightarrow> bool" where
  "is_echo_error (EchoError _) = True"
| "is_echo_error _ = False"

subsection \<open>Example data\<close>

text \<open>Two devices, two plugins and a small parameter tree to run the commands on.\<close>

definition rtr1 :: entity where
  "rtr1 = \<lparr> ent_id = ''rtr1'', ent_name = ''Router One'' \<rparr>"

definition rtr2 :: entity where
  "rtr2 = \<lparr> ent_id = ''rtr2'', ent_name = ''Router Two'' \<rparr>"

definition bgp_filter :: entity where
  "bgp_filter = \<lparr> ent_id = ''bgp_filter'', ent_name = ''Filter Routes'' \<rparr>"

definition strip_as :: entity where
  "strip_as = \<lparr> ent_id = ''strip_as'', ent_name = ''Remove Communities'' \<rparr>"

definition example_plugins :: "string \<Rightarrow> entity list" where
  "example_plugins plugin_type =
     (if plugin_type = ''input'' then [bgp_filter]
      else if plugin_type = ''output'' then [strip_as]
      else [])"

definition example_params :: pyobj where
  "example_params =
     PyObj ''params''
       [(''messages'', PyObj ''messages'' [(''no_input'', PyObj ''Input is required'' [])]),
        (''site_title'', PyObj ''hyperglass'' [])]"

section \<open>Properties of the \<^verbatim>\<open>start\<close> command\<close>

lemma start_try_build_false:
  "build_ui 180 = Ret False \<Longrightarrow>
   start_try build_ui start_server True workers = ([CallBuildUi 180], Returned)"
  by (simp add: start_try_def)

lemma start_try_building:
  "build \<Longrightarrow> build_ui 180 = Raise e \<Longrightarrow>
   start_try build_ui start_server build workers = ([CallBuildUi 180], Raised e)"
  by (simp add: start_try_def)

lemma start_try_serving:
  "\<not> build \<or> build_ui 180 = Ret True \<Longrightarrow>
   start_try build_ui start_server build workers =
     ((if build then [CallBuildUi 180] else []) @ [CallStartServer workers],
      (case start_server workers of Ret v \<Rightarrow> Returned | Raise e \<Rightarrow> Raised e))"
  by (auto simp: start_try_def call_start_server_def split: result.splits)

lemma start_cmd_events:
  "filter is_start_server (fst (start_cmd build_ui start_server build workers)) =
   filter is_start_server (fst (start_try build_ui start_server build workers))"
  by (simp add: start_cmd_def start_except_def split: prod.splits outcome.splits exc.splits)

lemma start_cmd_build_false:
  "build_ui 180 = Ret False \<Longrightarrow>
   start_cmd build_ui start_server True workers = ([CallBuildUi 180], Returned)"
  by (simp add: start_cmd_def start_try_build_false)

lemma start_cmd_interrupted:
  assumes "start_try build_ui start_server build workers = (evs, Raised e)"
    and "is_interrupt e"
  shows "filter is_echo_error (fst (start_cmd build_ui start_server build workers))
           = [EchoError stop_notice]
         \<and> snd (start_cmd build_ui start_server build workers) = Raised (TyperExit 0)"
proof -
  have "filter is_echo_error evs = []"
    using assms(1)
    by (auto simp: start_try_def call_start_server_def split: if_splits result.splits)
  then show ?thesis
    using assms by (cases e) (simp_all add: start_cmd_def start_except_def)
qed

text \<open>
  C1. When a build is requested and \<^verbatim>\<open>build_ui\<close> returns false, the service entry
  point is not invoked: no call of \<^verbatim>\<open>start_server\<close> is among the events of the run,
  whatever the worker count and whatever \<^verbatim>\<open>start_server\<close> would do.
\<close>

theorem start_build_failed_never_serves:
  assumes "build_ui 180 = Ret False"
  shows "filter is_start_server (fst (start_cmd build_ui start_server True workers)) = []"
  using assms by (simp add: start_cmd_events start_try_build_false)

theorem start_build_failed_never_serves_witness:
  "build_fails 180 = Ret False
   \<and> filter is_start_server (fst (start_cmd build_fails server_returns True (Some 4))) = []"
  using start_build_failed_never_serves [of build_fails server_returns "Some 4"]
  by (simp add: build_fails_def)

text \<open>
  C2. When a build is requested and \<^verbatim>\<open>build_ui\<close>, called with the 180 second
  deadline, returns true, the service entry point is invoked exactly once, with the
  requested worker count.
\<close>

theorem start_build_ok_serves_once:
  assumes "build_ui 180 = Ret True"
  shows "filter is_start_server (fst (start_cmd build_ui start_server True workers))
           = [CallStartServer workers]"
  using assms by (simp add: start_cmd_events start_try_serving)

theorem start_build_ok_serves_once_witness:
  "build_succeeds 180 = Ret True
   \<and> filter is_start_server (fst (start_cmd build_succeeds server_returns True (Some 4)))
       = [CallStartServer (Some 4)]"
  using start_build_ok_serves_once [of build_succeeds server_returns "Some 4"]
  by (simp add: build_succeeds_def)

text \<open>
  C3, as the claim states it, fails: with a build requested and \<^verbatim>\<open>build_ui\<close>
  returning false, \<^verbatim>\<open>_start\<close> falls out of the \<^verbatim>\<open>try\<close> block and returns, which
  is exit status 0.
\<close>

theorem start_build_failed_exit_status_counterexample:
  "snd (start_cmd build_fails server_returns True None) = Returned
   \<and> exit_code (snd (start_cmd build_fails server_returns True None)) = Some 0"
  by (simp add: start_cmd_build_false build_fails_def)

text \<open>
  C3, amended. When a build is requested and \<^verbatim>\<open>build_ui\<close> returns false, the
  command does nothing after the build: it reports nothing, raises nothing and
  returns, so its exit status is 0.
\<close>

theorem start_build_failed_returns:
  assumes "build_ui 180 = Ret False"
  shows "start_cmd build_ui start_server True workers = ([CallBuildUi 180], Returned)
         \<and> exit_code (snd (start_cmd build_ui start_server True workers)) = Some 0"
  using assms by (simp add: start_cmd_build_false)

theorem start_build_failed_returns_witness:
  "build_fails 180 = Ret False
   \<and> start_cmd build_fails server_exits True (Some 2) = ([CallBuildUi 180], Returned)
   \<and> exit_code (snd (start_cmd build_fails server_exits True (Some 2))) = Some 0"
  using start_build_failed_returns [of build_fails server_exits "Some 2"]
  by (simp add: build_fails_def)

text \<open>
  C4, as the claim states it, fails: a service that ends with \<^verbatim>\<open>SystemExit(3)\<close> is
  caught by the \<^verbatim>\<open>except\<close> clause and the command exits with 0, and a value the
  service entry point returns (here 3) is discarded and the command exits with 0.
\<close>

theorem start_service_status_counterexample:
  "exit_code (snd (start_cmd build_succeeds server_exits False None)) = Some 0
   \<and> exit_code (snd (start_cmd build_succeeds server_returns False None)) = Some 0"
  by (simp add: start_cmd_def start_try_def call_start_server_def start_except_def
      server_exits_def server_returns_def)

text \<open>
  C4, amended. When the service entry point is reached and it returns (with any
  value), or ends by \<^verbatim>\<open>SystemExit\<close> (with any status), the command ends with exit
  status 0: the service's own status is not passed through.
\<close>

theorem start_service_end_exits_zero:
  assumes "\<not> build \<or> build_ui 180 = Ret True"
    and "start_server workers = Ret v \<or> start_server workers = Raise (SystemExit a)"
  shows "exit_code (snd (start_cmd build_ui start_server build workers)) = Some 0"
  using assms(2)
proof
  assume "start_server workers = Ret v"
  then show ?thesis
    using assms(1) start_try_serving [of build build_ui start_server workers]
    by (simp add: start_cmd_def)
next
  assume "start_server workers = Raise (SystemExit a)"
  then show ?thesis
    using assms(1) start_try_serving [of build build_ui start_server workers]
    by (simp add: start_cmd_def start_except_def)
qed

theorem start_service_end_exits_zero_witness:
  "build_succeeds 180 = Ret True
   \<and> server_exits (Some 2) = Raise (SystemExit (IntArg 3))
   \<and> exit_code (snd (start_cmd build_succeeds server_exits True (Some 2))) = Some 0"
  using start_service_end_exits_zero [of True build_succeeds server_exits "Some 2" 0 "IntArg 3"]
  by (simp add: server_exits_def build_succeeds_def)

text \<open>
  C5. When an interrupt (\<^verbatim>\<open>KeyboardInterrupt\<close> or \<^verbatim>\<open>SystemExit\<close>) is raised while
  building (\<^verbatim>\<open>build_ui\<close> raises it) or while serving (\<^verbatim>\<open>start_server\<close> raises it),
  the command reports the fixed stopping notice exactly once, as its only error
  report, and exits with status 0, whatever message the interrupt carries.
\<close>

theorem start_interrupt_clean_stop:
  assumes "(build \<and> build_ui 180 = Raise e)
           \<or> ((\<not> build \<or> build_ui 180 = Ret True) \<and> start_server workers = Raise e)"
    and "is_interrupt e"
  shows "filter is_echo_error (fst (start_cmd build_ui start_server build workers))
           = [EchoError stop_notice]
         \<and> snd (start_cmd build_ui start_server build workers) = Raised (TyperExit 0)
         \<and> exit_code (snd (start_cmd build_ui start_server build workers)) = Some 0"
proof -
  from assms(1) obtain evs where
    "start_try build_ui start_server build workers = (evs, Raised e)"
  proof
    assume "build \<and> build_ui 180 = Raise e"
    then show ?thesis using that by (simp add: start_try_building)
  next
    assume "(\<not> build \<or> build_ui 180 = Ret True) \<and> start_server workers = Raise e"
    then show ?thesis
      using that start_try_serving [of build build_ui start_server workers] by simp
  qed
  from start_cmd_interrupted [OF this assms(2)] show ?thesis by simp
qed

theorem start_interrupt_clean_stop_witness:
  "build_succeeds 180 = Ret True
   \<and> server_interrupted None = Raise (KeyboardInterrupt ''operator stop'')
   \<and> is_interrupt (KeyboardInterrupt ''operator stop'')
   \<and> filter is_echo_error (fst (start_cmd build_succeeds server_interrupted True None))
       = [EchoError stop_notice]
   \<and> exit_code (snd (start_cmd build_succeeds server_interrupted True None)) = Some 0
   \<and> build_interrupted 180 = Raise (KeyboardInterrupt [])
   \<and> is_interrupt (KeyboardInterrupt [])
   \<and> filter is_echo_error (fst (start_cmd build_interrupted server_returns True None))
       = [EchoError stop_notice]
   \<and> exit_code (snd (start_cmd build_interrupted server_returns True None)) = Some 0"
  using start_interrupt_clean_stop
    [of True build_succeeds "KeyboardInterrupt ''operator stop''" server_interrupted None]
    start_interrupt_clean_stop
    [of True build_interrupted "KeyboardInterrupt []" server_returns None]
  by (simp add: build_succeeds_def server_interrupted_def build_interrupted_def)

section \<open>Properties of the search commands\<close>

lemma devices_loop_first:
  assumes "\<forall>x\<in>set pre. \<not> (m (ent_id x) \<or> m (ent_name x))"
    and "m (ent_id e) \<or> m (ent_name e)"
  shows "devices_loop m (pre @ e # post)
           = Some ([PrintEntity (Inspect e (ent_name e))], Raised (TyperExit 0))"
  using assms by (induction pre) auto

lemma directives_loop_first:
  assumes "\<forall>x\<in>set pre. \<not> (m (ent_id x) \<or> m (ent_name x))"
    and "m (ent_id e) \<or> m (ent_name e)"
  shows "directives_loop m (pre @ e # post)
           = Some ([PrintEntity (Inspect e (ent_name e))], Raised (TyperExit 0))"
  using assms by (induction pre) auto

lemma devices_loop_none:
  "\<forall>x\<in>set es. \<not> (m (ent_id x) \<or> m (ent_name x)) \<Longrightarrow> devices_loop m es = None"
  by (induction es) auto

lemma directives_loop_none:
  "\<forall>x\<in>set es. \<not> (m (ent_id x) \<or> m (ent_name x)) \<Longrightarrow> directives_loop m es = None"
  by (induction es) auto

text \<open>
  C6. A \<^verbatim>\<open>devices\<close> or \<^verbatim>\<open>directives\<close> search compiles the search string with
  \<^verbatim>\<open>IGNORECASE\<close> and tests each entity, in collection order, with the start-anchored
  \<^verbatim>\<open>match\<close> on its id and on its name. The first entity that matches is the one
  printed, and the command exits at once with status 0: whatever follows that entity
  in the collection has no effect on the output.
\<close>

theorem search_first_match:
  assumes "re_compile re s [IGNORECASE] = Some p"
    and "\<forall>x\<in>set pre. \<not> id_or_name_matches re p x"
    and "id_or_name_matches re p e"
  shows "devices_cmd re (pre @ e # post) (Some s)
           = ([PrintEntity (Inspect e (ent_name e))], Raised (TyperExit 0))
         \<and> directives_cmd re (pre @ e # post) (Some s)
           = ([PrintEntity (Inspect e (ent_name e))], Raised (TyperExit 0))"
proof -
  let ?m = "pattern_match re p"
  have pre: "\<forall>x\<in>set pre. \<not> (?m (ent_id x) \<or> ?m (ent_name x))"
    using assms(2) by (simp add: id_or_name_matches_def)
  have e: "?m (ent_id e) \<or> ?m (ent_name e)"
    using assms(3) by (simp add: id_or_name_matches_def)
  show ?thesis
    using assms(1) devices_loop_first [OF pre e, of post] directives_loop_first [OF pre e, of post]
    by (simp add: devices_cmd_def directives_cmd_def)
qed

theorem search_first_match_witness:
  "re_compile literal_re ''ROUTER t'' [IGNORECASE] = Some (Literal ''ROUTER t'' True)
   \<and> \<not> id_or_name_matches literal_re (Literal ''ROUTER t'' True) rtr1
   \<and> id_or_name_matches literal_re (Literal ''ROUTER t'' True) rtr2
   \<and> devices_cmd literal_re [rtr1, rtr2, rtr2] (Some ''ROUTER t'')
       = ([PrintEntity (Inspect rtr2 ''Router Two'')], Raised (TyperExit 0))
   \<and> directives_cmd literal_re [rtr1, rtr2, rtr2] (Some ''ROUTER t'')
       = ([PrintEntity (Inspect rtr2 ''Router Two'')], Raised (TyperExit 0))"
proof -
  have c: "re_compile literal_re ''ROUTER t'' [IGNORECASE] = Some (Literal ''ROUTER t'' True)"
    by (simp add: literal_re_def literal_compile_def plain_char_def)
  have n: "\<not> id_or_name_matches literal_re (Literal ''ROUTER t'' True) rtr1"
    by code_simp
  have y: "id_or_name_matches literal_re (Literal ''ROUTER t'' True) rtr2"
    by code_simp
  have pre: "\<forall>x\<in>set [rtr1]. \<not> id_or_name_matches literal_re (Literal ''ROUTER t'' True) x"
    using n by simp
  show ?thesis
    using c n y search_first_match [OF c pre y, of "[rtr2]"]
    by (simp add: rtr2_def)
qed

text \<open>
  C7. The \<^verbatim>\<open>plugins\<close> search tests the name of a plugin only. Here the pattern
  \<^verbatim>\<open>bgp\<close> matches the id of the plugin \<^verbatim>\<open>bgp_filter\<close> at its start, and the
  command still reports that no plugin matches and exits with status 1.
\<close>

theorem plugins_search_skips_id:
  "id_or_name_matches literal_re (Literal ''bgp'' True) bgp_filter
   \<and> re_compile literal_re ''bgp'' [IGNORECASE] = Some (Literal ''bgp'' True)
   \<and> plugins_cmd literal_re example_plugins (Some ''bgp'') False False
       = ([EchoError [Text ''No plugins matching '', Repr ''bgp'']], Raised (TyperExit 1))"
  by (simp add: id_or_name_matches_def literal_re_def literal_compile_def plain_char_def
      lower_char_def bgp_filter_def strip_as_def example_plugins_def plugins_cmd_def)

text \<open>
  C8, as the claim states it, fails: for the malformed pattern \<^verbatim>\<open>(\<close> the
  \<^verbatim>\<open>devices\<close> and \<^verbatim>\<open>plugins\<close> commands report nothing and end with \<^verbatim>\<open>re.error\<close>
  raised out of the command.
\<close>

theorem search_malformed_pattern_counterexample:
  "re_compile literal_re ''('' [IGNORECASE] = None
   \<and> devices_cmd literal_re [rtr1, rtr2] (Some ''('') = ([], Raised ReError)
   \<and> plugins_cmd literal_re example_plugins (Some ''('') False False = ([], Raised ReError)"
  by (simp add: literal_re_def literal_compile_def plain_char_def devices_cmd_def
      plugins_cmd_def)

text \<open>
  C8, amended. When the search string is not a well-formed regular expression,
  \<^verbatim>\<open>re.compile\<close> raises \<^verbatim>\<open>re.error\<close> and none of the three search commands catches
  it: the command prints and reports nothing, and the exception leaves it.
\<close>

theorem search_malformed_pattern_propagates:
  assumes "re_compile re s [IGNORECASE] = None"
  shows "devices_cmd re devices (Some s) = ([], Raised ReError)
         \<and> directives_cmd re directives (Some s) = ([], Raised ReError)
         \<and> plugins_cmd re state_plugins (Some s) show_input show_output = ([], Raised ReError)"
  using assms by (simp add: devices_cmd_def directives_cmd_def plugins_cmd_def)

theorem search_malformed_pattern_propagates_witness:
  "re_compile literal_re ''('' [IGNORECASE] = None
   \<and> devices_cmd literal_re [rtr1] (Some ''('') = ([], Raised ReError)
   \<and> directives_cmd literal_re [rtr2] (Some ''('') = ([], Raised ReError)
   \<and> plugins_cmd literal_re example_plugins (Some ''('') True False = ([], Raised ReError)"
proof -
  have c: "re_compile literal_re ''('' [IGNORECASE] = None"
    by (simp add: literal_re_def literal_compile_def plain_char_def)
  show ?thesis
    using c search_malformed_pattern_propagates [OF c, of "[rtr1]" "[rtr2]" example_plugins True False]
    by simp
qed

text \<open>
  C10. When the pattern compiles and matches neither the id nor the name of any
  entity, \<^verbatim>\<open>devices\<close> and \<^verbatim>\<open>directives\<close> report no error: the loop runs to its
  end, the command prints the panels of every entity of the collection, in order, and
  returns, which is exit status 0.
\<close>

theorem search_no_match_lists_all:
  assumes "re_compile re s [IGNORECASE] = Some p"
    and "\<forall>x\<in>set es. \<not> id_or_name_matches re p x"
  shows "devices_cmd re es (Some s)
           = ([PrintEntityColumns (map (\<lambda>e. Inspect e (ent_name e)) es)], Returned)
         \<and> directives_cmd re es (Some s)
           = ([PrintEntityColumns (map (\<lambda>e. Inspect e (ent_name e)) es)], Returned)
         \<and> exit_code (snd (devices_cmd re es (Some s))) = Some 0
         \<and> exit_code (snd (directives_cmd re es (Some s))) = Some 0"
proof -
  let ?m = "pattern_match re p"
  have none: "\<forall>x\<in>set es. \<not> (?m (ent_id x) \<or> ?m (ent_name x))"
    using assms(2) by (simp add: id_or_name_matches_def)
  show ?thesis
    using assms(1) devices_loop_none [OF none] directives_loop_none [OF none]
    by (simp add: devices_cmd_def directives_cmd_def devices_panels_def directives_panels_def)
qed

theorem search_no_match_lists_all_witness:
  "re_compile literal_re ''two'' [IGNORECASE] = Some (Literal ''two'' True)
   \<and> \<not> id_or_name_matches literal_re (Literal ''two'' True) rtr1
   \<and> \<not> id_or_name_matches literal_re (Literal ''two'' True) rtr2
   \<and> devices_cmd literal_re [rtr1, rtr2] (Some ''two'')
       = ([PrintEntityColumns [Inspect rtr1 ''Router One'', Inspect rtr2 ''Router Two'']],
          Returned)
   \<and> directives_cmd literal_re [rtr1, rtr2] (Some ''two'')
       = ([PrintEntityColumns [Inspect rtr1 ''Router One'', Inspect rtr2 ''Router Two'']],
          Returned)
   \<and> exit_code (snd (devices_cmd literal_re [rtr1, rtr2] (Some ''two''))) = Some 0
   \<and> exit_code (snd (directives_cmd literal_re [rtr1, rtr2] (Some ''two''))) = Some 0"
proof -
  have c: "re_compile literal_re ''two'' [IGNORECASE] = Some (Literal ''two'' True)"
    by (simp add: literal_re_def literal_compile_def plain_char_def)
  have n1: "\<not> id_or_name_matches literal_re (Literal ''two'' True) rtr1"
    by code_simp
  have n2: "\<not> id_or_name_matches literal_re (Literal ''two'' True) rtr2"
    by code_simp
  have none: "\<forall>x\<in>set [rtr1, rtr2]. \<not> id_or_name_matches literal_re (Literal ''two'' True) x"
    using n1 n2 by simp
  show ?thesis
    using c n1 n2 search_no_match_lists_all [OF c none]
    by (simp add: rtr1_def rtr2_def)
qed

section \<open>Properties of the \<^verbatim>\<open>params\<close> command\<close>

lemma attrgetter_names_raises:
  "attrgetter_names segs obj = Raise e \<Longrightarrow> e = AttributeError"
  by (induction segs arbitrary: obj) (auto simp: getattr_def split: option.splits)

lemma attrgetter_names_resolves:
  "(\<exists>v. attrgetter_names segs obj = Ret v) = resolves obj segs"
  by (induction segs arbitrary: obj) (auto simp: getattr_def split: option.splits)

lemma named_attrs_child:
  "named_attrs obj \<Longrightarrow> map_of (attrs obj) seg = Some child \<Longrightarrow> seg \<noteq> [] \<and> named_attrs child"
  by (cases obj) (auto simp: list_all_iff dest!: map_of_SomeD)

lemma empty_segment_unresolved:
  "named_attrs obj \<Longrightarrow> [] \<in> set segs \<Longrightarrow> \<not> resolves obj segs"
proof (induction segs arbitrary: obj)
  case Nil
  then show ?case by simp
next
  case (Cons seg segs)
  show ?case
  proof (cases "map_of (attrs obj) seg")
    case None
    then show ?thesis by simp
  next
    case (Some child)
    with Cons.prems(1) have "seg \<noteq> []" "named_attrs child"
      using named_attrs_child by blast+
    with Cons.prems(2) Cons.IH [of child] Some show ?thesis by auto
  qed
qed

lemma split_dots_nonempty: "split_dots s \<noteq> []"
  by (induction s) (auto split: list.splits)

lemma split_dots_at_dot:
  "split_dots (a @ CHR ''.'' # b) = split_dots a @ split_dots b"
proof (induction a)
  case Nil
  show ?case by simp
next
  case (Cons c a)
  obtain w ws where "split_dots a = w # ws"
    using split_dots_nonempty [of a] by (cases "split_dots a") auto
  with Cons show ?case by simp
qed

lemma empty_segment_forms:
  "[] \<in> set (split_dots [])"
  "[] \<in> set (split_dots (CHR ''.'' # b))"
  "[] \<in> set (split_dots (a @ ''.''))"
  "[] \<in> set (split_dots (a @ ''..'' @ b))"
  using split_dots_at_dot [of a "[]"] split_dots_at_dot [of a "CHR ''.'' # b"]
  by simp_all

lemma params_cmd_unresolved:
  assumes "\<not> resolves root (split_dots path)"
  shows "params_cmd root (Some path) =
     ([EchoError [Repr (''params.'' @ path), Text '' does not exist'']], Raised (TyperExit 1))"
proof -
  from assms attrgetter_names_resolves [of "split_dots path" root]
  obtain e where "attrgetter_names (split_dots path) root = Raise e"
    by (cases "attrgetter_names (split_dots path) root") auto
  moreover from this have "e = AttributeError" by (rule attrgetter_names_raises)
  ultimately show ?thesis by (simp add: params_cmd_def attrgetter_def)
qed

lemma params_cmd_resolved:
  assumes "resolves root (split_dots path)"
  shows "\<exists>v. params_cmd root (Some path) =
     ([PrintValue (Inspect v (''params.'' @ path))], Raised (TyperExit 0))"
proof -
  from assms attrgetter_names_resolves [of "split_dots path" root]
  obtain v where "attrgetter_names (split_dots path) root = Ret v" by auto
  then show ?thesis by (simp add: params_cmd_def attrgetter_def)
qed

text \<open>
  C9. For every dotted path given to \<^verbatim>\<open>params\<close>: when some segment does not
  resolve, the command reports that \<^verbatim>\<open>'params.' + path\<close>, the whole path as it was
  given, does not exist, and exits with status 1; when every segment resolves it
  prints the value and exits with status 0. On a parameter tree with no empty attribute
  name, the empty path and a path with a leading, trailing or doubled dot do not
  resolve. The command always ends with status 0 or 1, never with another exception.
\<close>

theorem params_path_not_found:
  "(\<not> resolves root (split_dots path) \<longrightarrow>
      params_cmd root (Some path) =
        ([EchoError [Repr (''params.'' @ path), Text '' does not exist'']],
         Raised (TyperExit 1)))
   \<and> (resolves root (split_dots path) \<longrightarrow>
      (\<exists>v. params_cmd root (Some path) =
        ([PrintValue (Inspect v (''params.'' @ path))], Raised (TyperExit 0))))
   \<and> (named_attrs root \<and>
        (path = [] \<or> path = CHR ''.'' # b \<or> path = a @ ''.'' \<or> path = a @ ''..'' @ b) \<longrightarrow>
      \<not> resolves root (split_dots path))
   \<and> (exit_code (snd (params_cmd root (Some path))) = Some 0
        \<or> exit_code (snd (params_cmd root (Some path))) = Some 1)"
proof -
  have unresolved: "\<not> resolves root (split_dots path) \<longrightarrow>
      params_cmd root (Some path) =
        ([EchoError [Repr (''params.'' @ path), Text '' does not exist'']],
         Raised (TyperExit 1))"
    using params_cmd_unresolved by blast
  have resolved: "resolves root (split_dots path) \<longrightarrow>
      (\<exists>v. params_cmd root (Some path) =
        ([PrintValue (Inspect v (''params.'' @ path))], Raised (TyperExit 0)))"
    using params_cmd_resolved by blast
  have empty: "named_attrs root \<and>
        (path = [] \<or> path = CHR ''.'' # b \<or> path = a @ ''.'' \<or> path = a @ ''..'' @ b) \<longrightarrow>
      \<not> resolves root (split_dots path)"
    using empty_segment_forms empty_segment_unresolved [of root "split_dots path"]
    by blast
  have status: "exit_code (snd (params_cmd root (Some path))) = Some 0
        \<or> exit_code (snd (params_cmd root (Some path))) = Some 1"
    using unresolved resolved by (cases "resolves root (split_dots path)") auto
  from unresolved resolved empty status show ?thesis by blast
qed

theorem params_path_not_found_witness:
  "named_attrs example_params
   \<and> \<not> resolves example_params (split_dots ''messages..no_input'')
   \<and> params_cmd example_params (Some ''messages..no_input'') =
       ([EchoError [Repr ''params.messages..no_input'', Text '' does not exist'']],
        Raised (TyperExit 1))
   \<and> resolves example_params (split_dots ''messages.no_input'')
   \<and> params_cmd example_params (Some ''messages.no_input'') =
       ([PrintValue (Inspect (PyObj ''Input is required'' []) ''params.messages.no_input'')],
        Raised (TyperExit 0))"
proof -
  have n: "named_attrs example_params"
    by (simp add: example_params_def)
  have u: "\<not> resolves example_params (split_dots ''messages..no_input'')"
    using n params_path_not_found [of example_params "''messages..no_input''" "''no_input''" "''messages''"]
    by simp
  have r: "resolves example_params (split_dots ''messages.no_input'')"
    by (simp add: example_params_def)
  have v: "params_cmd example_params (Some ''messages.no_input'') =
       ([PrintValue (Inspect (PyObj ''Input is required'' []) ''params.messages.no_input'')],
        Raised (TyperExit 0))"
    by (simp add: example_params_def params_cmd_def attrgetter_def getattr_def)
  show ?thesis
    using n u r v params_path_not_found [of example_params "''messages..no_input''" "''no_input''" "''messages''"]
    by simp
qed

end
